theory Spec2Isabelle
  imports Complex_Main "HOL-Library.Sublist" "HOL-Library.Multiset"
begin

section \<open>The CFA calculator of \<^verbatim>\<open>src/cfa_calculator.py\<close>\<close>

text \<open>
  A shallow embedding of the class \<^verbatim>\<open>CFACalculator\<close>.

  Numbers: pandas stores the columns as float64 and the metrics are float64 as well.
  The embedding idealises them as \<^typ>\<open>real\<close>: no NaN, no infinities, exact
  arithmetic. The \<^verbatim>\<open>can_pay\<close> column is an integer column (\<^verbatim>\<open>astype(int)\<close>).
  Dates are the integer time stamps \<^verbatim>\<open>pd.to_datetime\<close> produces; parsing is taken
  to succeed.
\<close>

subsection \<open>Data frames\<close>

text \<open>
  A frame is a list of rows together with the names of the columns it has. A row
  carries a value for each of the six columns the calculator ever reads or writes; the
  value of a column that is not listed in \<open>columns\<close> is never read: every access goes
  through \<open>has_column\<close> and raises \<^verbatim>\<open>KeyError\<close> otherwise, as
  \<^verbatim>\<open>df['name']\<close> does.
\<close>

record row =
  date :: int
  daily_balance :: real
  daily_income :: real
  daily_expenses :: real
  daily_net :: real
  can_pay :: int

record dataframe =
  columns :: "string list"
  rows :: "row list"

text \<open>
  The exceptions the constructor can raise. Both validation errors are
  \<^verbatim>\<open>ValueError\<close> in the source (lines 60 and 65), told apart by their message:
  \<open>InsufficientHistoryError n\<close> is "Dataset debe tener al menos 90 dias. Actual: n dias",
  \<open>SchemaError missing\<close> is "Faltan columnas requeridas: missing".
\<close>

datatype error =
    KeyError string
  | InsufficientHistoryError nat
  | SchemaError "string set"

definition has_column :: "string \<Rightarrow> dataframe \<Rightarrow> bool" where
  "has_column c df = (c \<in> set (columns df))"

text \<open>\<^verbatim>\<open>df[c] = ...\<close>: the column is appended when it is new, overwritten otherwise.\<close>

definition add_column :: "string \<Rightarrow> string list \<Rightarrow> string list" where
  "add_column c cs = (if c \<in> set cs then cs else cs @ [c])"

text \<open>
  \<^verbatim>\<open>sort_values('date').reset_index(drop=True)\<close>, line 47. pandas sorts with an
  unstable algorithm by default, so the order among rows of one date is not fixed by
  the source; on a series whose dates are distinct the ascending order is unique and
  this is it.
\<close>

definition sort_values :: "dataframe \<Rightarrow> dataframe" where
  "sort_values df = df\<lparr>rows := sort_key date (rows df)\<rparr>"

text \<open>\<^verbatim>\<open>df.tail(90)\<close>: the last 90 rows, all of them when there are fewer.\<close>

definition tail :: "nat \<Rightarrow> 'a list \<Rightarrow> 'a list" where
  "tail k xs = drop (length xs - k) xs"

subsection \<open>Rounding\<close>

text \<open>
  \<^verbatim>\<open>round(x, n)\<close>: to \<open>n\<close> decimal places, a tie going to the even neighbour.
\<close>

definition py_round :: "real \<Rightarrow> nat \<Rightarrow> real" where
  "py_round x n =
     (let y = x * 10 ^ n; f = \<lfloor>y\<rfloor>; d = y - of_int f
      in of_int (if d < 1 / 2 then f else if 1 / 2 < d then f + 1
                 else if even f then f else f + 1) / 10 ^ n)"

subsection \<open>The calculator object\<close>

record calculator =
  self_data :: dataframe
  self_biweekly_parcel :: real

definition required_cols :: "string list" where
  "required_cols = [''date'', ''daily_balance'', ''daily_income'', ''daily_expenses'']"

text \<open>\<^verbatim>\<open>_validate_data\<close>, lines 57-65: the length first, then the columns.\<close>

definition validate_data :: "dataframe \<Rightarrow> error + unit" where
  "validate_data df =
     (if length (rows df) < 90 then Inl (InsufficientHistoryError (length (rows df)))
      else let missing = set required_cols - set (columns df)
           in if missing \<noteq> {} then Inl (SchemaError missing) else Inr ())"

text \<open>Line 52: \<^verbatim>\<open>data['daily_net'] = data['daily_income'] - data['daily_expenses']\<close>.\<close>

definition set_daily_net :: "dataframe \<Rightarrow> dataframe" where
  "set_daily_net df =
     \<lparr>columns = add_column ''daily_net'' (columns df),
      rows = map (\<lambda>r. r\<lparr>daily_net := daily_income r - daily_expenses r\<rparr>) (rows df)\<rparr>"

text \<open>
  \<^verbatim>\<open>__init__\<close>, lines 45-55. The date column is read (line 46) and the net flow is
  derived (lines 51-52) before \<^verbatim>\<open>_validate_data\<close> runs (line 55).
\<close>

definition init :: "dataframe \<Rightarrow> real \<Rightarrow> error + calculator" where
  "init df parcel =
     (if \<not> has_column ''date'' df then Inl (KeyError ''date'')
      else
        let d1 = sort_values df in
        case (if has_column ''daily_net'' d1 then Inr d1
              else if \<not> has_column ''daily_income'' d1 then Inl (KeyError ''daily_income'')
              else if \<not> has_column ''daily_expenses'' d1 then Inl (KeyError ''daily_expenses'')
              else Inr (set_daily_net d1)) of
          Inl e \<Rightarrow> Inl e
        | Inr d2 \<Rightarrow>
            (case validate_data d2 of
               Inl e \<Rightarrow> Inl e
             | Inr _ \<Rightarrow> Inr \<lparr>self_data = d2, self_biweekly_parcel = parcel\<rparr>))"

text \<open>\<^verbatim>\<open>calculate_can_pay\<close>, lines 67-75; the new state is returned.\<close>

definition can_pay_rule :: "real \<Rightarrow> real \<Rightarrow> int" where
  "can_pay_rule parcel balance = (if balance \<ge> parcel then 1 else 0)"

definition calculate_can_pay :: "calculator \<Rightarrow> error + calculator" where
  "calculate_can_pay c =
     (let df = self_data c in
      if \<not> has_column ''daily_balance'' df then Inl (KeyError ''daily_balance'')
      else Inr (c\<lparr>self_data :=
        \<lparr>columns = add_column ''can_pay'' (columns df),
         rows = map (\<lambda>r. r\<lparr>can_pay := can_pay_rule (self_biweekly_parcel c) (daily_balance r)\<rparr>)
                  (rows df)\<rparr>\<rparr>))"

subsection \<open>Tier and recommendation\<close>

text \<open>
  \<^verbatim>\<open>_determine_risk_tier\<close> (lines 158-167) and \<^verbatim>\<open>_get_recommendation\<close>
  (lines 169-178) return these strings; the accented letter of "dias" is written as its
  two UTF-8 bytes.
\<close>

definition tier_3_label :: string where
  "tier_3_label = ''Tier 3 (Premium) - CFA 70-100%''"

definition tier_2_label :: string where
  "tier_2_label = ''Tier 2 (Standard) - CFA 60-69%''"

definition tier_1_label :: string where
  "tier_1_label = ''Tier 1 (Starter) - CFA 50-59%''"

definition denied_label :: string where
  "denied_label = ''Denied - CFA <50%''"

definition approve_tier_3 :: string where
  "approve_tier_3 = ''APPROVE - Alta capacidad de pago. Elegible para Tier 3 ($200, 90 d''
     @ [CHR 0xC3, CHR 0xAD] @ ''as).''"

definition approve_tier_2 :: string where
  "approve_tier_2 = ''APPROVE - Buena capacidad de pago. Elegible para Tier 2 ($150, 60 d''
     @ [CHR 0xC3, CHR 0xAD] @ ''as).''"

definition conditional_tier_1 :: string where
  "conditional_tier_1 = ''CONDITIONAL - Capacidad marginal. Solo Tier 1 ($100, 30 d''
     @ [CHR 0xC3, CHR 0xAD] @ ''as).''"

definition deny_text :: string where
  "deny_text =
     ''DENY - Capacidad insuficiente. Balance no puede cubrir parcels consistentemente.''"

definition determine_risk_tier :: "real \<Rightarrow> string" where
  "determine_risk_tier cfa_score =
     (if cfa_score \<ge> 0.70 then tier_3_label
      else if cfa_score \<ge> 0.60 then tier_2_label
      else if cfa_score \<ge> 0.50 then tier_1_label
      else denied_label)"

definition get_recommendation :: "real \<Rightarrow> string" where
  "get_recommendation cfa_score =
     (if cfa_score \<ge> 0.70 then approve_tier_3
      else if cfa_score \<ge> 0.60 then approve_tier_2
      else if cfa_score \<ge> 0.50 then conditional_tier_1
      else deny_text)"

subsection \<open>The streak\<close>

text \<open>
  \<^verbatim>\<open>_max_consecutive_ones\<close>, lines 146-156: the loop over the array, with the two
  counters as arguments.
\<close>

fun max_consecutive_loop :: "int list \<Rightarrow> nat \<Rightarrow> nat \<Rightarrow> nat" where
  "max_consecutive_loop [] max_count current_count = max_count"
| "max_consecutive_loop (val # arr) max_count current_count =
     (if val = 1
      then max_consecutive_loop arr (max max_count (current_count + 1)) (current_count + 1)
      else max_consecutive_loop arr max_count 0)"

definition max_consecutive_ones :: "int list \<Rightarrow> nat" where
  "max_consecutive_ones arr = max_consecutive_loop arr 0 0"

subsection \<open>Series statistics\<close>

text \<open>
  The pandas reductions the calculator calls on a column: \<^verbatim>\<open>sum\<close>, \<^verbatim>\<open>mean\<close>,
  \<^verbatim>\<open>min\<close>, \<^verbatim>\<open>max\<close> and \<^verbatim>\<open>std\<close>, whose default is the sample standard
  deviation (\<^verbatim>\<open>ddof=1\<close>). On an empty column pandas gives NaN; the constructor
  admits no frame of fewer than 90 rows, and no theorem below reads these on an empty list.
\<close>

definition series_mean :: "real list \<Rightarrow> real" where
  "series_mean xs = sum_list xs / real (length xs)"

definition series_min :: "real list \<Rightarrow> real" where
  "series_min xs = Min (set xs)"

definition series_max :: "real list \<Rightarrow> real" where
  "series_max xs = Max (set xs)"

definition series_std :: "real list \<Rightarrow> real" where
  "series_std xs =
     sqrt (sum_list (map (\<lambda>x. (x - series_mean xs) ^ 2) xs) / real (length xs - 1))"

subsection \<open>The metrics\<close>

record metrics =
  pct_90 :: real
  pct_6m :: real
  cfa_score :: real
  total_days :: nat
  biweekly_parcel :: real

record balance_stats_t =
  avg_balance :: real
  min_balance :: real
  max_balance :: real
  std_balance :: real

record net_stats_t =
  avg_daily_net :: real
  positive_days_pct :: real

record cfa_result = metrics +
  max_consecutive_can_pay_90d :: nat
  balance_stats :: balance_stats_t
  net_stats :: net_stats_t
  risk_tier :: string
  recommendation :: string

text \<open>
  \<^verbatim>\<open>calculate_temporal_metrics\<close>, lines 77-105. It returns the metrics and the
  calculator, whose frame has gained the \<^verbatim>\<open>can_pay\<close> column when it had none.
\<close>

definition calculate_temporal_metrics :: "calculator \<Rightarrow> error + (metrics \<times> calculator)" where
  "calculate_temporal_metrics c =
     (case (if \<not> has_column ''can_pay'' (self_data c) then calculate_can_pay c else Inr c) of
        Inl e \<Rightarrow> Inl e
      | Inr c1 \<Rightarrow>
          let can_pay_col = map can_pay (rows (self_data c1));
              last_90_days = tail 90 can_pay_col;
              pct_90 = real_of_int (sum_list last_90_days) / 90;
              total_days_6m = length (rows (self_data c1));
              pct_6m = real_of_int (sum_list can_pay_col) / real total_days_6m;
              cfa_score = (pct_90 * 0.70) + (pct_6m * 0.30)
          in Inr (\<lparr>pct_90 = py_round pct_90 4,
                   pct_6m = py_round pct_6m 4,
                   cfa_score = py_round cfa_score 4,
                   total_days = total_days_6m,
                   biweekly_parcel = self_biweekly_parcel c1\<rparr>, c1))"

text \<open>\<^verbatim>\<open>calculate_cfa\<close>, lines 107-144.\<close>

definition calculate_cfa :: "calculator \<Rightarrow> error + cfa_result" where
  "calculate_cfa c =
     (case calculate_temporal_metrics c of
        Inl e \<Rightarrow> Inl e
      | Inr (m, c1) \<Rightarrow>
          let df = self_data c1;
              last_90 = tail 90 (rows df);
              can_pay_series = map can_pay last_90;
              max_consecutive = max_consecutive_ones can_pay_series
          in if \<not> has_column ''daily_balance'' df then Inl (KeyError ''daily_balance'')
             else if \<not> has_column ''daily_net'' df then Inl (KeyError ''daily_net'')
             else
               let balance = map daily_balance (rows df);
                   net = map daily_net (rows df)
               in Inr (metrics.extend m
                    \<lparr>max_consecutive_can_pay_90d = max_consecutive,
                     balance_stats =
                       \<lparr>avg_balance = py_round (series_mean balance) 2,
                        min_balance = py_round (series_min balance) 2,
                        max_balance = py_round (series_max balance) 2,
                        std_balance = py_round (series_std balance) 2\<rparr>,
                     net_stats =
                       \<lparr>avg_daily_net = py_round (series_mean net) 2,
                        positive_days_pct =
                          py_round (real (length (filter (\<lambda>x. x > 0) net)) / real (length (rows df))) 4\<rparr>,
                     risk_tier = determine_risk_tier (cfa_score m),
                     recommendation = get_recommendation (cfa_score m)\<rparr>))"

text \<open>
  Scoring a series, as the script does (lines 415-419):
  \<^verbatim>\<open>CFACalculator(data, biweekly_parcel).calculate_cfa()\<close>.
\<close>

definition score :: "dataframe \<Rightarrow> real \<Rightarrow> error + cfa_result" where
  "score df parcel = (case init df parcel of Inl e \<Rightarrow> Inl e | Inr c \<Rightarrow> calculate_cfa c)"

section \<open>Vocabulary of the statements\<close>

text \<open>
  A valid input: at least 90 records, the four required columns present.
\<close>

definition valid_input :: "dataframe \<Rightarrow> bool" where
  "valid_input df = (90 \<le> length (rows df) \<and> list_all (\<lambda>c. has_column c df) required_cols)"

text \<open>
  The dates of a series are pairwise distinct, as the data model asks. The ascending
  order of such a series is unique, so the frame \<open>sort_values\<close> gives is the frame
  pandas gives, whatever its sorting algorithm does with equal keys.
\<close>

definition unique_dates :: "dataframe \<Rightarrow> bool" where
  "unique_dates df = distinct (map date (rows df))"

text \<open>The records in date-ascending order.\<close>

definition sorted_rows :: "dataframe \<Rightarrow> row list" where
  "sorted_rows df = sort_key date (rows df)"

text \<open>
  The \<^verbatim>\<open>can_pay\<close> sequence of a series, in date order: the supplied column when
  the input has one, the per-record rule otherwise.
\<close>

definition can_pay_column :: "dataframe \<Rightarrow> real \<Rightarrow> int list" where
  "can_pay_column df parcel =
     (if has_column ''can_pay'' df then map can_pay (sorted_rows df)
      else map (\<lambda>r. can_pay_rule parcel (daily_balance r)) (sorted_rows df))"

text \<open>The net flow of each record, in the given order of records.\<close>

definition net_of :: "dataframe \<Rightarrow> row list \<Rightarrow> real list" where
  "net_of df rs =
     (if has_column ''daily_net'' df then map daily_net rs
      else map (\<lambda>r. daily_income r - daily_expenses r) rs)"

definition net_column :: "dataframe \<Rightarrow> real list" where
  "net_column df = net_of df (sorted_rows df)"

text \<open>The frame the constructor stores, and the calculator after \<^verbatim>\<open>can_pay\<close> is there.\<close>

definition prepared :: "dataframe \<Rightarrow> dataframe" where
  "prepared df =
     (if has_column ''daily_net'' df then sort_values df else set_daily_net (sort_values df))"

definition with_can_pay :: "dataframe \<Rightarrow> real \<Rightarrow> calculator" where
  "with_can_pay df p =
     (if has_column ''can_pay'' df then \<lparr>self_data = prepared df, self_biweekly_parcel = p\<rparr>
      else \<lparr>self_data =
        \<lparr>columns = add_column ''can_pay'' (columns (prepared df)),
         rows = map (\<lambda>r. r\<lparr>can_pay := can_pay_rule p (daily_balance r)\<rparr>) (rows (prepared df))\<rparr>,
        self_biweekly_parcel = p\<rparr>)"

text \<open>
  The longest run of consecutive ones, in the words of the specification: the greatest,
  over the positions of the sequence, of the number of ones that start there.
\<close>

fun leading_ones :: "int list \<Rightarrow> nat" where
  "leading_ones [] = 0"
| "leading_ones (x # xs) = (if x = 1 then Suc (leading_ones xs) else 0)"

fun longest_run :: "int list \<Rightarrow> nat" where
  "longest_run [] = 0"
| "longest_run (x # xs) = max (leading_ones (x # xs)) (longest_run xs)"

text \<open>Example series: \<open>n\<close> consecutive days, one balance on each of them.\<close>

definition flat_row :: "real \<Rightarrow> nat \<Rightarrow> row" where
  "flat_row b i =
     \<lparr>date = int i, daily_balance = b, daily_income = 0, daily_expenses = 0,
      daily_net = 0, can_pay = 0\<rparr>"

definition flat_series :: "nat \<Rightarrow> real \<Rightarrow> dataframe" where
  "flat_series n b = \<lparr>columns = required_cols, rows = map (flat_row b) [0..<n]\<rparr>"

text \<open>Three days around a parcel of 50: just below it, exactly on it, just above it.\<close>

definition three_days :: calculator where
  "three_days =
     \<lparr>self_data = \<lparr>columns = required_cols,
        rows = [flat_row 49.99 0, flat_row 50 1, flat_row 50.01 2]\<rparr>,
      self_biweekly_parcel = 50\<rparr>"



text \<open>
  A series of \<open>n1\<close> days at one balance followed by \<open>n2\<close> days at another; 41 days
  at 10 and then 50 days at 100; 90 days at 100 that come with a \<^verbatim>\<open>can_pay\<close> column
  of zeros.
\<close>

definition two_level_series :: "nat \<Rightarrow> real \<Rightarrow> nat \<Rightarrow> real \<Rightarrow> dataframe" where
  "two_level_series n1 b1 n2 b2 =
     \<lparr>columns = required_cols,
      rows = map (flat_row b1) [0..<n1] @ map (flat_row b2) [n1..<n1 + n2]\<rparr>"

definition uneven_series :: dataframe where
  "uneven_series = two_level_series 41 10 50 100"

definition supplied_series :: dataframe where
  "supplied_series = \<lparr>columns = required_cols @ [''can_pay''], rows = map (flat_row 100) [0..<90]\<rparr>"

text \<open>A supplied \<^verbatim>\<open>can_pay\<close> column holds zeros and ones only, as the derived one does.\<close>

definition binary_can_pay :: "dataframe \<Rightarrow> bool" where
  "binary_can_pay df =
     (has_column ''can_pay'' df \<longrightarrow> list_all (\<lambda>r. can_pay r = 0 \<or> can_pay r = 1) (rows df))"

text \<open>The same records in the opposite order.\<close>

definition reversed :: "dataframe \<Rightarrow> dataframe" where
  "reversed df = df\<lparr>rows := rev (rows df)\<rparr>"


section \<open>The constructor and the pipeline on a valid input\<close>

lemma has_column_sort_values [simp]: "has_column c (sort_values df) = has_column c df"
  by (simp add: has_column_def sort_values_def)

lemma rows_sort_values [simp]: "rows (sort_values df) = sorted_rows df"
  by (simp add: sort_values_def sorted_rows_def)

lemma length_sorted_rows [simp]: "length (sorted_rows df) = length (rows df)"
  by (simp add: sorted_rows_def)

lemma has_column_set_daily_net [simp]:
  "has_column c (set_daily_net df) = (c = ''daily_net'' \<or> has_column c df)"
  by (auto simp add: has_column_def set_daily_net_def add_column_def)

lemma has_column_prepared [simp]:
  "has_column c (prepared df) = (c = ''daily_net'' \<or> has_column c df)"
  by (auto simp add: prepared_def)

lemma length_rows_prepared [simp]: "length (rows (prepared df)) = length (rows df)"
  by (simp add: prepared_def set_daily_net_def)

lemma valid_inputD:
  assumes "valid_input df"
  shows "90 \<le> length (rows df)" "has_column ''date'' df" "has_column ''daily_balance'' df"
    "has_column ''daily_income'' df" "has_column ''daily_expenses'' df"
  using assms by (simp_all add: valid_input_def required_cols_def)

lemma validate_data_ok:
  "validate_data df = Inr () \<longleftrightarrow> 90 \<le> length (rows df) \<and> list_all (\<lambda>c. has_column c df) required_cols"
  by (auto simp add: validate_data_def has_column_def list_all_iff Let_def)

lemma init_valid:
  assumes "valid_input df"
  shows "init df p = Inr \<lparr>self_data = prepared df, self_biweekly_parcel = p\<rparr>"
proof -
  have v: "validate_data (prepared df) = Inr ()"
    using assms by (simp add: validate_data_ok valid_input_def required_cols_def)
  show ?thesis
  proof (cases "has_column ''daily_net'' df")
    case True
    with v have "validate_data (sort_values df) = Inr ()" by (simp add: prepared_def)
    with True valid_inputD[OF assms] show ?thesis
      by (simp add: init_def Let_def prepared_def)
  next
    case False
    with v have "validate_data (set_daily_net (sort_values df)) = Inr ()" by (simp add: prepared_def)
    with False valid_inputD[OF assms] show ?thesis
      by (simp add: init_def Let_def prepared_def)
  qed
qed

lemma map_daily_balance_prepared [simp]:
  "map daily_balance (rows (prepared df)) = map daily_balance (sorted_rows df)"
  by (simp add: prepared_def set_daily_net_def comp_def)

lemma map_can_pay_prepared [simp]:
  "map can_pay (rows (prepared df)) = map can_pay (sorted_rows df)"
  by (simp add: prepared_def set_daily_net_def comp_def)

lemma map_daily_net_prepared [simp]:
  "map daily_net (rows (prepared df)) = net_column df"
  by (simp add: prepared_def set_daily_net_def comp_def net_column_def net_of_def)

lemma self_parcel_with_can_pay [simp]: "self_biweekly_parcel (with_can_pay df p) = p"
  by (simp add: with_can_pay_def)

lemma length_rows_with_can_pay [simp]:
  "length (rows (self_data (with_can_pay df p))) = length (rows df)"
  by (simp add: with_can_pay_def)

lemma map_can_pay_with_can_pay [simp]:
  "map can_pay (rows (self_data (with_can_pay df p))) = can_pay_column df p"
proof (cases "has_column ''can_pay'' df")
  case True
  then show ?thesis by (simp add: with_can_pay_def can_pay_column_def)
next
  case False
  have "map (\<lambda>r. can_pay_rule p (daily_balance r)) (rows (prepared df))
      = map (\<lambda>r. can_pay_rule p (daily_balance r)) (sorted_rows df)"
    by (simp add: prepared_def set_daily_net_def comp_def)
  then show ?thesis using False by (simp add: with_can_pay_def can_pay_column_def comp_def)
qed

lemma map_daily_balance_with_can_pay [simp]:
  "map daily_balance (rows (self_data (with_can_pay df p))) = map daily_balance (sorted_rows df)"
proof -
  have "map daily_balance (map (\<lambda>r. r\<lparr>can_pay := can_pay_rule p (daily_balance r)\<rparr>) (rows (prepared df)))
     = map daily_balance (rows (prepared df))"
    by (simp add: comp_def)
  then show ?thesis by (simp add: with_can_pay_def del: map_map)
qed

lemma map_daily_net_with_can_pay [simp]:
  "map daily_net (rows (self_data (with_can_pay df p))) = net_column df"
proof -
  have "map daily_net (map (\<lambda>r. r\<lparr>can_pay := can_pay_rule p (daily_balance r)\<rparr>) (rows (prepared df)))
     = map daily_net (rows (prepared df))"
    by (simp add: comp_def)
  then show ?thesis by (simp add: with_can_pay_def del: map_map)
qed

lemma has_column_with_can_pay [simp]:
  "has_column c (self_data (with_can_pay df p)) =
     (c = ''can_pay'' \<or> c = ''daily_net'' \<or> has_column c df)"
proof (cases "has_column ''can_pay'' df")
  case True
  then show ?thesis by (auto simp add: with_can_pay_def)
next
  case False
  have "has_column c \<lparr>columns = add_column ''can_pay'' (columns (prepared df)), rows = rs\<rparr>
      = (c = ''can_pay'' \<or> has_column c (prepared df))" for rs
    by (auto simp add: has_column_def add_column_def)
  with False show ?thesis by (simp add: with_can_pay_def)
qed

lemma can_pay_step:
  assumes "has_column ''daily_balance'' df"
  shows "(if \<not> has_column ''can_pay'' (self_data \<lparr>self_data = prepared df, self_biweekly_parcel = p\<rparr>)
          then calculate_can_pay \<lparr>self_data = prepared df, self_biweekly_parcel = p\<rparr>
          else Inr \<lparr>self_data = prepared df, self_biweekly_parcel = p\<rparr>) = Inr (with_can_pay df p)"
  using assms by (simp add: calculate_can_pay_def with_can_pay_def Let_def)

lemma temporal_metrics_prepared:
  assumes "has_column ''daily_balance'' df"
  shows "calculate_temporal_metrics \<lparr>self_data = prepared df, self_biweekly_parcel = p\<rparr> =
      Inr (\<lparr>pct_90 = py_round (real_of_int (sum_list (tail 90 (can_pay_column df p))) / 90) 4,
            pct_6m = py_round (real_of_int (sum_list (can_pay_column df p)) / real (length (rows df))) 4,
            cfa_score = py_round (real_of_int (sum_list (tail 90 (can_pay_column df p))) / 90 * 0.70
                         + real_of_int (sum_list (can_pay_column df p)) / real (length (rows df)) * 0.30) 4,
            total_days = length (rows df),
            biweekly_parcel = p\<rparr>, with_can_pay df p)"
  unfolding calculate_temporal_metrics_def can_pay_step[OF assms]
  by (simp add: Let_def)

lemma length_can_pay_column [simp]: "length (can_pay_column df p) = length (rows df)"
  by (simp add: can_pay_column_def)

lemma length_net_column [simp]: "length (net_column df) = length (rows df)"
  by (simp add: net_column_def net_of_def)

lemma map_tail: "map f (tail k xs) = tail k (map f xs)"
  by (simp add: tail_def drop_map)

lemma length_tail: "length (tail k xs) = min k (length xs)"
  by (simp add: tail_def)

lemma calculate_cfa_prepared:
  assumes "has_column ''daily_balance'' df"
  shows "calculate_cfa \<lparr>self_data = prepared df, self_biweekly_parcel = p\<rparr> =
    Inr (metrics.extend
      \<lparr>pct_90 = py_round (real_of_int (sum_list (tail 90 (can_pay_column df p))) / 90) 4,
       pct_6m = py_round (real_of_int (sum_list (can_pay_column df p)) / real (length (rows df))) 4,
       cfa_score = py_round (real_of_int (sum_list (tail 90 (can_pay_column df p))) / 90 * 0.70
                    + real_of_int (sum_list (can_pay_column df p)) / real (length (rows df)) * 0.30) 4,
       total_days = length (rows df),
       biweekly_parcel = p\<rparr>
      \<lparr>max_consecutive_can_pay_90d = max_consecutive_ones (tail 90 (can_pay_column df p)),
       balance_stats =
         \<lparr>avg_balance = py_round (series_mean (map daily_balance (sorted_rows df))) 2,
          min_balance = py_round (series_min (map daily_balance (sorted_rows df))) 2,
          max_balance = py_round (series_max (map daily_balance (sorted_rows df))) 2,
          std_balance = py_round (series_std (map daily_balance (sorted_rows df))) 2\<rparr>,
       net_stats =
         \<lparr>avg_daily_net = py_round (series_mean (net_column df)) 2,
          positive_days_pct =
            py_round (real (length (filter (\<lambda>x. x > 0) (net_column df))) / real (length (rows df))) 4\<rparr>,
       risk_tier = determine_risk_tier
         (py_round (real_of_int (sum_list (tail 90 (can_pay_column df p))) / 90 * 0.70
                    + real_of_int (sum_list (can_pay_column df p)) / real (length (rows df)) * 0.30) 4),
       recommendation = get_recommendation
         (py_round (real_of_int (sum_list (tail 90 (can_pay_column df p))) / 90 * 0.70
                    + real_of_int (sum_list (can_pay_column df p)) / real (length (rows df)) * 0.30) 4)\<rparr>)"
proof -
  have t: "map can_pay (tail 90 (rows (self_data (with_can_pay df p)))) = tail 90 (can_pay_column df p)"
    by (simp add: map_tail)
  show ?thesis
    unfolding calculate_cfa_def temporal_metrics_prepared[OF assms]
    using assms by (simp add: Let_def t)
qed

lemma score_valid:
  assumes "valid_input df"
  shows "score df p = calculate_cfa \<lparr>self_data = prepared df, self_biweekly_parcel = p\<rparr>"
  by (simp add: score_def init_valid[OF assms])

section \<open>The example series\<close>

lemma date_flat_row [simp]: "date (flat_row b i) = int i"
  by (simp add: flat_row_def)

lemma daily_balance_flat_row [simp]: "daily_balance (flat_row b i) = b"
  by (simp add: flat_row_def)

lemma distinct_dates_flat_rows: "distinct (map date (map (flat_row b) [i..<j]))"
  by (simp add: distinct_map comp_def inj_on_def)

lemma distinct_dates_two_level_series:
  "distinct (map date (rows (two_level_series n1 b1 n2 b2)))"
proof -
  have "[0..<n1 + n2] = [0..<n1] @ [n1..<n1 + n2]"
    using upt_add_eq_append[of 0 n1 n2] by simp
  then have "map date (rows (two_level_series n1 b1 n2 b2)) = map int [0..<n1 + n2]"
    by (simp add: two_level_series_def comp_def)
  then show ?thesis by (simp add: distinct_map)
qed

lemma unique_dates_examples:
  "unique_dates (flat_series n b)"
  "unique_dates (two_level_series n1 b1 n2 b2)"
  "unique_dates uneven_series"
  "unique_dates supplied_series"
  unfolding unique_dates_def uneven_series_def
  using distinct_dates_flat_rows distinct_dates_two_level_series
  by (simp_all add: flat_series_def supplied_series_def del: map_map)

section \<open>The tier classifier\<close>

lemma labels_distinct:
  "distinct [tier_3_label, tier_2_label, tier_1_label, denied_label]"
  by (simp add: tier_3_label_def tier_2_label_def tier_1_label_def denied_label_def)

lemma recommendations_distinct:
  "distinct [approve_tier_3, approve_tier_2, conditional_tier_1, deny_text]"
  by (simp add: approve_tier_3_def approve_tier_2_def conditional_tier_1_def deny_text_def)

lemma labels_neq:
  "tier_3_label \<noteq> tier_2_label" "tier_3_label \<noteq> tier_1_label" "tier_3_label \<noteq> denied_label"
  "tier_2_label \<noteq> tier_3_label" "tier_2_label \<noteq> tier_1_label" "tier_2_label \<noteq> denied_label"
  "tier_1_label \<noteq> tier_3_label" "tier_1_label \<noteq> tier_2_label" "tier_1_label \<noteq> denied_label"
  "denied_label \<noteq> tier_3_label" "denied_label \<noteq> tier_2_label" "denied_label \<noteq> tier_1_label"
  by (simp_all add: tier_3_label_def tier_2_label_def tier_1_label_def denied_label_def)

lemma recommendations_neq:
  "approve_tier_3 \<noteq> approve_tier_2" "approve_tier_3 \<noteq> conditional_tier_1" "approve_tier_3 \<noteq> deny_text"
  "approve_tier_2 \<noteq> approve_tier_3" "approve_tier_2 \<noteq> conditional_tier_1" "approve_tier_2 \<noteq> deny_text"
  "conditional_tier_1 \<noteq> approve_tier_3" "conditional_tier_1 \<noteq> approve_tier_2" "conditional_tier_1 \<noteq> deny_text"
  "deny_text \<noteq> approve_tier_3" "deny_text \<noteq> approve_tier_2" "deny_text \<noteq> conditional_tier_1"
  by (simp_all add: approve_tier_3_def approve_tier_2_def conditional_tier_1_def deny_text_def)

lemma tier_recommendation_paired:
  "determine_risk_tier s = determine_risk_tier s' \<longleftrightarrow> get_recommendation s = get_recommendation s'"
  by (simp add: determine_risk_tier_def get_recommendation_def labels_neq recommendations_neq)

lemma calculate_cfa_tier:
  assumes "calculate_cfa c = Inr r"
  shows "risk_tier r = determine_risk_tier (cfa_score r)"
    and "recommendation r = get_recommendation (cfa_score r)"
  using assms
  by (auto simp add: calculate_cfa_def Let_def metrics.defs split: sum.splits prod.splits if_splits)

lemma score_tier:
  assumes "score df p = Inr r"
  shows "risk_tier r = determine_risk_tier (cfa_score r)"
    and "recommendation r = get_recommendation (cfa_score r)"
  using assms calculate_cfa_tier
  by (auto simp add: score_def split: sum.splits)

lemma valid_flat_series: "90 \<le> n \<Longrightarrow> valid_input (flat_series n b)"
  by (simp add: valid_input_def flat_series_def has_column_def list_all_iff)

lemma score_valid_ex: "valid_input df \<Longrightarrow> \<exists>r. score df p = Inr r"
  by (simp add: score_valid calculate_cfa_prepared valid_inputD)

text \<open>
  Claim C2. Every score (in \<open>[0,1]\<close> or not) lands in exactly one of four buckets, the
  first matching threshold deciding: Tier 3 from 0.70 up, Tier 2 on \<open>[0.60, 0.70)\<close>, Tier 1
  on \<open>[0.50, 0.60)\<close>, Denied below 0.50. The four tier labels are pairwise different, the
  four recommendations are pairwise different, two scores share a tier exactly when they
  share a recommendation, and in a result the engine returns both are read off the
  result's own \<open>cfa_score\<close>.
\<close>

theorem tier_classifier_buckets:
  "((0.70 \<le> s \<and> determine_risk_tier s = tier_3_label \<and> get_recommendation s = approve_tier_3) \<or>
    (0.60 \<le> s \<and> s < 0.70 \<and> determine_risk_tier s = tier_2_label \<and> get_recommendation s = approve_tier_2) \<or>
    (0.50 \<le> s \<and> s < 0.60 \<and> determine_risk_tier s = tier_1_label \<and> get_recommendation s = conditional_tier_1) \<or>
    (s < 0.50 \<and> determine_risk_tier s = denied_label \<and> get_recommendation s = deny_text))
   \<and> distinct [tier_3_label, tier_2_label, tier_1_label, denied_label]
   \<and> distinct [approve_tier_3, approve_tier_2, conditional_tier_1, deny_text]
   \<and> (determine_risk_tier s = determine_risk_tier s' \<longleftrightarrow> get_recommendation s = get_recommendation s')
   \<and> (score df p = Inr r \<longrightarrow>
        risk_tier r = determine_risk_tier (cfa_score r) \<and>
        recommendation r = get_recommendation (cfa_score r))"
proof -
  have buckets: "(0.70 \<le> s \<and> determine_risk_tier s = tier_3_label \<and> get_recommendation s = approve_tier_3) \<or>
    (0.60 \<le> s \<and> s < 0.70 \<and> determine_risk_tier s = tier_2_label \<and> get_recommendation s = approve_tier_2) \<or>
    (0.50 \<le> s \<and> s < 0.60 \<and> determine_risk_tier s = tier_1_label \<and> get_recommendation s = conditional_tier_1) \<or>
    (s < 0.50 \<and> determine_risk_tier s = denied_label \<and> get_recommendation s = deny_text)"
    by (simp add: determine_risk_tier_def get_recommendation_def)
  have paired: "determine_risk_tier s = determine_risk_tier s' \<longleftrightarrow> get_recommendation s = get_recommendation s'"
    by (rule tier_recommendation_paired)
  have pipeline: "score df p = Inr r \<longrightarrow>
        risk_tier r = determine_risk_tier (cfa_score r) \<and>
        recommendation r = get_recommendation (cfa_score r)"
    using score_tier[of df p r] by simp
  show ?thesis
    by (intro conjI buckets paired labels_distinct recommendations_distinct pipeline)
qed

theorem tier_classifier_buckets_witness:
  "determine_risk_tier 0.70 = tier_3_label \<and> get_recommendation 0.70 = approve_tier_3
   \<and> determine_risk_tier 0.6999 = tier_2_label \<and> get_recommendation 0.6999 = approve_tier_2
   \<and> determine_risk_tier 0.60 = tier_2_label \<and> get_recommendation 0.60 = approve_tier_2
   \<and> determine_risk_tier 0.50 = tier_1_label \<and> get_recommendation 0.50 = conditional_tier_1
   \<and> determine_risk_tier 0.4999 = denied_label \<and> get_recommendation 0.4999 = deny_text
   \<and> (\<exists>r. score (flat_series 90 100) 50 = Inr r \<and>
        risk_tier r = determine_risk_tier (cfa_score r) \<and>
        recommendation r = get_recommendation (cfa_score r))"
proof -
  obtain r where r: "score (flat_series 90 100) 50 = Inr r"
    using score_valid_ex[OF valid_flat_series[of 90 100]] by auto
  have pipeline: "score (flat_series 90 100) 50 = Inr r \<longrightarrow>
        risk_tier r = determine_risk_tier (cfa_score r) \<and>
        recommendation r = get_recommendation (cfa_score r)"
    using tier_classifier_buckets[of "0.70" "0.60" "flat_series 90 100" 50 r]
    by (elim conjE)
  have "risk_tier r = determine_risk_tier (cfa_score r) \<and>
        recommendation r = get_recommendation (cfa_score r)"
    using pipeline r by simp
  moreover have "determine_risk_tier 0.70 = tier_3_label \<and> get_recommendation 0.70 = approve_tier_3
   \<and> determine_risk_tier 0.6999 = tier_2_label \<and> get_recommendation 0.6999 = approve_tier_2
   \<and> determine_risk_tier 0.60 = tier_2_label \<and> get_recommendation 0.60 = approve_tier_2
   \<and> determine_risk_tier 0.50 = tier_1_label \<and> get_recommendation 0.50 = conditional_tier_1
   \<and> determine_risk_tier 0.4999 = denied_label \<and> get_recommendation 0.4999 = deny_text"
    by (simp add: determine_risk_tier_def get_recommendation_def)
  ultimately show ?thesis using r by simp
qed

section \<open>The daily affordability rule\<close>

text \<open>
  Claim C4. \<^verbatim>\<open>calculate_can_pay\<close> sets \<open>can_pay\<close> of every record to 1 exactly
  when that record's \<open>daily_balance\<close> is at least the parcel and to 0 otherwise; a
  balance equal to the parcel gives 1. The new value of a record is computed from that
  record's balance and the parcel only (the frame is mapped record by record), and the
  frame keeps its length.
\<close>

theorem calculate_can_pay_rule:
  assumes "has_column ''daily_balance'' (self_data c)"
  shows "\<exists>c'. calculate_can_pay c = Inr c'
    \<and> rows (self_data c') =
        map (\<lambda>r. r\<lparr>can_pay := (if daily_balance r \<ge> self_biweekly_parcel c then 1 else 0)\<rparr>)
          (rows (self_data c))
    \<and> length (rows (self_data c')) = length (rows (self_data c))
    \<and> (\<forall>i < length (rows (self_data c)).
          (can_pay (rows (self_data c') ! i) = 1 \<longleftrightarrow>
             daily_balance (rows (self_data c) ! i) \<ge> self_biweekly_parcel c)
        \<and> (can_pay (rows (self_data c') ! i) = 0 \<longleftrightarrow>
             daily_balance (rows (self_data c) ! i) < self_biweekly_parcel c)
        \<and> (daily_balance (rows (self_data c) ! i) = self_biweekly_parcel c \<longrightarrow>
             can_pay (rows (self_data c') ! i) = 1))"
  using assms
  by (auto simp add: calculate_can_pay_def Let_def can_pay_rule_def)

theorem calculate_can_pay_rule_witness:
  "has_column ''daily_balance'' (self_data three_days)
   \<and> (\<exists>c'. calculate_can_pay three_days = Inr c'
         \<and> map can_pay (rows (self_data c')) = [0, 1, 1])"
proof -
  have h: "has_column ''daily_balance'' (self_data three_days)"
    by (simp add: three_days_def has_column_def required_cols_def)
  from calculate_can_pay_rule[OF h] obtain c' where
    c: "calculate_can_pay three_days = Inr c'"
    and rs: "rows (self_data c') =
        map (\<lambda>r. r\<lparr>can_pay := (if daily_balance r \<ge> self_biweekly_parcel three_days then 1 else 0)\<rparr>)
          (rows (self_data three_days))"
    by blast
  have "map can_pay (rows (self_data c')) = [0, 1, 1]"
    unfolding rs by (simp add: three_days_def flat_row_def)
  with h c show ?thesis by simp
qed

section \<open>Validation\<close>

lemma validate_data_prepared:
  "validate_data (prepared df) =
     (if length (rows df) < 90 then Inl (InsufficientHistoryError (length (rows df)))
      else if list_all (\<lambda>c. has_column c df) required_cols then Inr ()
      else Inl (SchemaError (set required_cols - set (columns df))))"
proof -
  have "set required_cols - set (columns (prepared df)) = set required_cols - set (columns df)"
    by (auto simp add: prepared_def set_daily_net_def add_column_def sort_values_def required_cols_def)
  moreover have "list_all (\<lambda>c. has_column c df) required_cols \<longleftrightarrow> set required_cols - set (columns df) = {}"
    by (auto simp add: list_all_iff has_column_def)
  ultimately show ?thesis
    by (simp add: validate_data_def Let_def)
qed

lemma init_readable:
  assumes "has_column ''date'' df"
    and "has_column ''daily_net'' df \<or> (has_column ''daily_income'' df \<and> has_column ''daily_expenses'' df)"
  shows "init df p =
     (case validate_data (prepared df) of
        Inl e \<Rightarrow> Inl e
      | Inr _ \<Rightarrow> Inr \<lparr>self_data = prepared df, self_biweekly_parcel = p\<rparr>)"
proof (cases "has_column ''daily_net'' df")
  case True
  then have p: "prepared df = sort_values df" by (simp add: prepared_def)
  show ?thesis unfolding p using assms(1) True by (simp add: init_def Let_def)
next
  case False
  then have p: "prepared df = set_daily_net (sort_values df)" by (simp add: prepared_def)
  show ?thesis unfolding p using assms False by (simp add: init_def Let_def)
qed

lemma init_short:
  assumes "list_all (\<lambda>c. has_column c df) required_cols" and "length (rows df) < 90"
  shows "init df p = Inl (InsufficientHistoryError (length (rows df)))"
proof -
  have "has_column ''date'' df" "has_column ''daily_income'' df \<and> has_column ''daily_expenses'' df"
    using assms(1) by (simp_all add: required_cols_def)
  then show ?thesis
    using assms(2) by (simp add: init_readable validate_data_prepared)
qed

text \<open>
  Claim C3. When the four required columns are present, a series of fewer than 90
  records (89 among them) makes the constructor raise the length error, so no score is
  produced, and a series of 90 records or more is scored: the engine returns a result,
  whose \<open>total_days\<close> is the number of records.
\<close>

theorem history_length_boundary:
  assumes "list_all (\<lambda>c. has_column c df) required_cols"
  shows "(length (rows df) < 90 \<longrightarrow>
            init df p = Inl (InsufficientHistoryError (length (rows df))) \<and>
            score df p = Inl (InsufficientHistoryError (length (rows df))))
       \<and> (90 \<le> length (rows df) \<longrightarrow>
            (\<exists>r. score df p = Inr r \<and> total_days r = length (rows df)))"
proof (intro conjI impI)
  assume short: "length (rows df) < 90"
  show "init df p = Inl (InsufficientHistoryError (length (rows df)))"
    by (rule init_short[OF assms short])
  then show "score df p = Inl (InsufficientHistoryError (length (rows df)))"
    by (simp add: score_def)
next
  assume "90 \<le> length (rows df)"
  with assms have v: "valid_input df" by (simp add: valid_input_def)
  show "\<exists>r. score df p = Inr r \<and> total_days r = length (rows df)"
    by (simp add: score_valid[OF v] calculate_cfa_prepared valid_inputD[OF v] metrics.defs)
qed

lemma length_rows_flat_series [simp]: "length (rows (flat_series n b)) = n"
  by (simp add: flat_series_def)

lemma required_flat_series: "list_all (\<lambda>c. has_column c (flat_series n b)) required_cols"
  by (simp add: flat_series_def has_column_def list_all_iff)

theorem history_length_boundary_witness:
  "list_all (\<lambda>c. has_column c (flat_series 89 100)) required_cols
   \<and> length (rows (flat_series 89 100)) = 89
   \<and> score (flat_series 89 100) 50 = Inl (InsufficientHistoryError 89)
   \<and> list_all (\<lambda>c. has_column c (flat_series 90 100)) required_cols
   \<and> length (rows (flat_series 90 100)) = 90
   \<and> (\<exists>r. score (flat_series 90 100) 50 = Inr r \<and> total_days r = 90)"
  using history_length_boundary[OF required_flat_series, of 89 100 50]
    history_length_boundary[OF required_flat_series, of 90 100 50]
    required_flat_series[of 89 100] required_flat_series[of 90 100]
  by simp





section \<open>The streak of the last 90 days\<close>

lemma leading_ones_le_longest_run: "leading_ones xs \<le> longest_run xs"
  by (cases xs) simp_all

lemma max_consecutive_loop_eq:
  "current_count \<le> max_count \<Longrightarrow>
   max_consecutive_loop arr max_count current_count =
     max max_count (max (current_count + leading_ones arr) (longest_run arr))"
proof (induction arr arbitrary: max_count current_count)
  case Nil
  then show ?case by simp
next
  case (Cons val arr)
  show ?case
  proof (cases "val = 1")
    case True
    have "current_count + 1 \<le> max max_count (current_count + 1)" by simp
    from Cons.IH[OF this] True show ?thesis by (simp add: max_def)
  next
    case False
    have "(0::nat) \<le> max_count" by simp
    from Cons.IH[OF this] False Cons.prems leading_ones_le_longest_run[of arr]
    show ?thesis by (simp add: max_def)
  qed
qed

lemma max_consecutive_ones_longest_run: "max_consecutive_ones arr = longest_run arr"
  using leading_ones_le_longest_run[of arr]
  by (simp add: max_consecutive_ones_def max_consecutive_loop_eq max_def)

lemma leading_ones_prefix: "prefix (replicate (leading_ones xs) 1) xs"
  by (induction xs) simp_all

lemma longest_run_sublist: "sublist (replicate (longest_run xs) 1) xs"
proof (induction xs)
  case Nil
  then show ?case by simp
next
  case (Cons x xs)
  show ?case
  proof (cases "longest_run xs \<le> leading_ones (x # xs)")
    case True
    then have "longest_run (x # xs) = leading_ones (x # xs)" by (simp add: max_def)
    then show ?thesis
      using leading_ones_prefix[of "x # xs"] by (metis prefix_imp_sublist)
  next
    case False
    then have "longest_run (x # xs) = longest_run xs" by (simp add: max_def)
    then show ?thesis using Cons.IH by (simp add: sublist_Cons_right)
  qed
qed

lemma leading_ones_replicate_append: "k \<le> leading_ones (replicate k 1 @ ss)"
  by (induction k) simp_all

lemma longest_run_append_ge: "longest_run ys \<le> longest_run (ps @ ys)"
  by (induction ps) (simp_all add: max_def)

lemma longest_run_greatest:
  assumes "sublist (replicate k 1) xs"
  shows "k \<le> longest_run xs"
proof -
  from assms obtain ps ss where xs: "xs = ps @ replicate k 1 @ ss"
    by (auto simp add: sublist_def)
  have "k \<le> leading_ones (replicate k 1 @ ss)" by (rule leading_ones_replicate_append)
  also have "\<dots> \<le> longest_run (replicate k 1 @ ss)" by (rule leading_ones_le_longest_run)
  also have "\<dots> \<le> longest_run xs" unfolding xs by (rule longest_run_append_ge)
  finally show ?thesis .
qed

lemma leading_ones_le_length: "leading_ones xs \<le> length xs"
  by (induction xs) simp_all

lemma longest_run_le_length: "longest_run xs \<le> length xs"
  using leading_ones_le_length by (induction xs) (auto simp add: max_def le_SucI)

lemma leading_ones_all: "\<forall>v\<in>set xs. v = 1 \<Longrightarrow> leading_ones xs = length xs"
  by (induction xs) simp_all

lemma longest_run_all: "\<forall>v\<in>set xs. v = 1 \<Longrightarrow> longest_run xs = length xs"
  using longest_run_le_length[of xs] leading_ones_le_longest_run[of xs] leading_ones_all[of xs]
  by simp

lemma longest_run_none: "\<forall>v\<in>set xs. v \<noteq> 1 \<Longrightarrow> longest_run xs = 0"
  by (induction xs) simp_all

lemma length_window:
  assumes "valid_input df"
  shows "length (tail 90 (can_pay_column df p)) = 90"
  using valid_inputD(1)[OF assms] by (simp add: length_tail)

text \<open>
  Claim C6. On a valid input with pairwise distinct dates the engine returns a result whose
  \<open>max_consecutive_can_pay_90d\<close> is the length of the longest run of consecutive ones
  in the \<open>can_pay\<close> sequence of the last 90 records, the window \<open>pct_90\<close> sums over:
  a block of that many ones occurs in the window and no longer block does. It lies
  between 0 and 90, is 90 when every record of the window has \<open>can_pay = 1\<close> and 0 when
  none has.
\<close>

theorem streak_is_longest_run:
  assumes "valid_input df" and "unique_dates df"
  shows "\<exists>r. score df p = Inr r
    \<and> length (tail 90 (can_pay_column df p)) = 90
    \<and> pct_90 r = py_round (real_of_int (sum_list (tail 90 (can_pay_column df p))) / 90) 4
    \<and> max_consecutive_can_pay_90d r = longest_run (tail 90 (can_pay_column df p))
    \<and> sublist (replicate (max_consecutive_can_pay_90d r) 1) (tail 90 (can_pay_column df p))
    \<and> (\<forall>k. sublist (replicate k 1) (tail 90 (can_pay_column df p)) \<longrightarrow>
            k \<le> max_consecutive_can_pay_90d r)
    \<and> 0 \<le> max_consecutive_can_pay_90d r \<and> max_consecutive_can_pay_90d r \<le> 90
    \<and> ((\<forall>v\<in>set (tail 90 (can_pay_column df p)). v = 1) \<longrightarrow> max_consecutive_can_pay_90d r = 90)
    \<and> ((\<forall>v\<in>set (tail 90 (can_pay_column df p)). v \<noteq> 1) \<longrightarrow> max_consecutive_can_pay_90d r = 0)"
proof -
  let ?w = "tail 90 (can_pay_column df p)"
  obtain r where r: "score df p = Inr r"
    and m: "max_consecutive_can_pay_90d r = max_consecutive_ones ?w"
    and p90: "pct_90 r = py_round (real_of_int (sum_list ?w) / 90) 4"
    by (simp add: score_valid[OF assms(1)] calculate_cfa_prepared valid_inputD[OF assms(1)] metrics.defs)
  have len: "length ?w = 90" by (rule length_window[OF assms(1)])
  have eq: "max_consecutive_can_pay_90d r = longest_run ?w"
    by (simp add: m max_consecutive_ones_longest_run)
  have le: "max_consecutive_can_pay_90d r \<le> 90"
    using longest_run_le_length[of ?w] by (simp add: eq len)
  show ?thesis
    using r len p90 eq le longest_run_sublist[of ?w] longest_run_greatest[of _ ?w]
      longest_run_all[of ?w] longest_run_none[of ?w]
    by simp
qed

lemma set_tail_subset: "set (tail k xs) \<subseteq> set xs"
  by (simp add: tail_def set_drop_subset)

lemma can_pay_column_flat_series:
  "set (can_pay_column (flat_series n b) p) \<subseteq> {can_pay_rule p b}"
  by (auto simp add: can_pay_column_def flat_series_def has_column_def required_cols_def
      sorted_rows_def flat_row_def)

theorem streak_is_longest_run_witness:
  "valid_input (flat_series 90 100) \<and> valid_input (flat_series 90 10)
   \<and> unique_dates (flat_series 90 100) \<and> unique_dates (flat_series 90 10)
   \<and> (\<exists>r. score (flat_series 90 100) 50 = Inr r \<and> max_consecutive_can_pay_90d r = 90)
   \<and> (\<exists>r. score (flat_series 90 10) 50 = Inr r \<and> max_consecutive_can_pay_90d r = 0)"
proof -
  have v1: "valid_input (flat_series 90 100)" and v2: "valid_input (flat_series 90 10)"
    by (simp_all add: valid_flat_series)
  have a: "\<forall>v\<in>set (tail 90 (can_pay_column (flat_series 90 100) 50)). v = 1"
    using set_tail_subset[of 90 "can_pay_column (flat_series 90 100) 50"]
      can_pay_column_flat_series[of 90 100 50]
    by (auto simp add: can_pay_rule_def)
  have b: "\<forall>v\<in>set (tail 90 (can_pay_column (flat_series 90 10) 50)). v \<noteq> 1"
    using set_tail_subset[of 90 "can_pay_column (flat_series 90 10) 50"]
      can_pay_column_flat_series[of 90 10 50]
    by (auto simp add: can_pay_rule_def)
  from streak_is_longest_run[OF v1 unique_dates_examples(1), of 50] a
  have 1: "\<exists>r. score (flat_series 90 100) 50 = Inr r \<and> max_consecutive_can_pay_90d r = 90"
    by blast
  from streak_is_longest_run[OF v2 unique_dates_examples(1), of 50] b
  have 2: "\<exists>r. score (flat_series 90 10) 50 = Inr r \<and> max_consecutive_can_pay_90d r = 0"
    by blast
  from v1 v2 1 2 show ?thesis by (simp add: unique_dates_examples)
qed

section \<open>The temporal metrics\<close>




lemma set_sorted_rows [simp]: "set (sorted_rows df) = set (rows df)"
  by (simp add: sorted_rows_def)




lemma score_fields:
  assumes "valid_input df"
  shows "\<exists>r. score df p = Inr r
    \<and> pct_90 r = py_round (real_of_int (sum_list (tail 90 (can_pay_column df p))) / 90) 4
    \<and> pct_6m r = py_round (real_of_int (sum_list (can_pay_column df p)) / real (length (rows df))) 4
    \<and> cfa_score r = py_round (real_of_int (sum_list (tail 90 (can_pay_column df p))) / 90 * 0.70
         + real_of_int (sum_list (can_pay_column df p)) / real (length (rows df)) * 0.30) 4
    \<and> total_days r = length (rows df)
    \<and> biweekly_parcel r = p
    \<and> max_consecutive_can_pay_90d r = max_consecutive_ones (tail 90 (can_pay_column df p))"
  by (simp add: score_valid[OF assms] calculate_cfa_prepared valid_inputD[OF assms] metrics.defs)


lemma valid_two_level_series: "90 \<le> n1 + n2 \<Longrightarrow> valid_input (two_level_series n1 b1 n2 b2)"
  by (simp add: valid_input_def two_level_series_def has_column_def list_all_iff)

lemma sorted_rows_two_level_series:
  "sorted_rows (two_level_series n1 b1 n2 b2) = rows (two_level_series n1 b1 n2 b2)"
proof -
  have "[0..<n1 + n2] = [0..<n1] @ [n1..<n1 + n2]"
    using upt_add_eq_append[of 0 n1 n2] by simp
  then have "map date (rows (two_level_series n1 b1 n2 b2)) = map int [0..<n1 + n2]"
    by (simp add: two_level_series_def comp_def)
  moreover have "sorted (map int [0..<n1 + n2])"
    by (simp add: sorted_map)
  ultimately show ?thesis
    unfolding sorted_rows_def by (simp add: sort_key_id_if_sorted)
qed

lemma can_pay_column_two_level_series:
  "can_pay_column (two_level_series n1 b1 n2 b2) p =
     replicate n1 (can_pay_rule p b1) @ replicate n2 (can_pay_rule p b2)"
proof -
  have "\<not> has_column ''can_pay'' (two_level_series n1 b1 n2 b2)"
    by (simp add: has_column_def two_level_series_def required_cols_def)
  then show ?thesis
    unfolding can_pay_column_def sorted_rows_two_level_series
    by (simp add: two_level_series_def comp_def map_replicate_const)
qed

lemma tail_append_replicate:
  "n2 \<le> k \<Longrightarrow> k \<le> n1 + n2 \<Longrightarrow>
   tail k (replicate n1 x @ replicate n2 y) = replicate (k - n2) x @ replicate n2 y"
  by (simp add: tail_def)

lemma sums_two_level_series:
  assumes "n2 \<le> 90" and "90 \<le> n1 + n2"
  shows "sum_list (tail 90 (can_pay_column (two_level_series n1 b1 n2 b2) p)) =
           int (90 - n2) * can_pay_rule p b1 + int n2 * can_pay_rule p b2"
    and "sum_list (can_pay_column (two_level_series n1 b1 n2 b2) p) =
           int n1 * can_pay_rule p b1 + int n2 * can_pay_rule p b2"
    and "length (rows (two_level_series n1 b1 n2 b2)) = n1 + n2"
proof -
  show "sum_list (tail 90 (can_pay_column (two_level_series n1 b1 n2 b2) p)) =
           int (90 - n2) * can_pay_rule p b1 + int n2 * can_pay_rule p b2"
    using assms
    by (simp add: can_pay_column_two_level_series tail_append_replicate sum_list_replicate
        del: of_nat_diff)
  show "sum_list (can_pay_column (two_level_series n1 b1 n2 b2) p) =
           int n1 * can_pay_rule p b1 + int n2 * can_pay_rule p b2"
    by (simp add: can_pay_column_two_level_series sum_list_replicate)
  show "length (rows (two_level_series n1 b1 n2 b2)) = n1 + n2"
    by (simp add: two_level_series_def)
qed


lemma uneven_series_score:
  "valid_input uneven_series"
  "binary_can_pay uneven_series"
  "\<exists>r. score uneven_series 50 = Inr r
     \<and> pct_90 r = 0.5556 \<and> pct_6m r = 0.5495 \<and> cfa_score r = 0.5537"
proof -
  show v: "valid_input uneven_series"
    by (simp add: uneven_series_def valid_two_level_series)
  show "binary_can_pay uneven_series"
    by (simp add: binary_can_pay_def uneven_series_def two_level_series_def has_column_def
        required_cols_def)
  from score_fields[OF v, of 50] obtain r where r: "score uneven_series 50 = Inr r"
    and p90: "pct_90 r = py_round (real_of_int (sum_list (tail 90 (can_pay_column uneven_series 50))) / 90) 4"
    and p6m: "pct_6m r = py_round (real_of_int (sum_list (can_pay_column uneven_series 50))
           / real (length (rows uneven_series))) 4"
    and cfa: "cfa_score r = py_round (real_of_int (sum_list (tail 90 (can_pay_column uneven_series 50))) / 90 * 0.70
         + real_of_int (sum_list (can_pay_column uneven_series 50))
             / real (length (rows uneven_series)) * 0.30) 4"
    by blast
  have s: "sum_list (tail 90 (can_pay_column uneven_series 50)) = 50"
    "sum_list (can_pay_column uneven_series 50) = 50"
    "length (rows uneven_series) = 91"
    unfolding uneven_series_def by (simp_all add: sums_two_level_series can_pay_rule_def)
  have "pct_90 r = 0.5556" unfolding p90 s by (simp add: py_round_def Let_def)
  moreover have "pct_6m r = 0.5495" unfolding p6m s by (simp add: py_round_def Let_def)
  moreover have "cfa_score r = 0.5537" unfolding cfa s by (simp add: py_round_def Let_def)
  ultimately show "\<exists>r. score uneven_series 50 = Inr r
     \<and> pct_90 r = 0.5556 \<and> pct_6m r = 0.5495 \<and> cfa_score r = 0.5537"
    using r by simp
qed




section \<open>The order of the input rows\<close>

lemma sort_key_unique:
  assumes "mset xs' = mset xs" and "distinct (map f xs)"
  shows "sort_key f xs' = sort_key f xs"
proof -
  let ?a = "sort_key f xs" and ?b = "sort_key f xs'"
  have sets: "set xs' = set xs" using assms(1) by (rule mset_eq_setD)
  have inj: "inj_on f (set xs)" using assms(2) by (simp add: distinct_map)
  have da: "distinct (map f ?a)"
    using assms(2) by (simp add: distinct_map)
  have "distinct xs'" using assms by (metis distinct_map mset_eq_imp_distinct_iff)
  then have db: "distinct (map f ?b)"
    using inj sets by (simp add: distinct_map)
  have "set (map f ?a) = set (map f ?b)" using sets by simp
  moreover have "sorted (map f ?a)" "sorted (map f ?b)" by simp_all
  ultimately have "map f ?a = map f ?b"
    using da db by (metis sorted_distinct_set_unique)
  moreover have "inj_on f (set ?a \<union> set ?b)" using inj sets by simp
  ultimately show ?thesis by (metis inj_on_map_eq_map)
qed

lemma init_depends_on:
  assumes "columns df' = columns df" and "sort_values df' = sort_values df"
  shows "init df' p = init df p"
proof -
  have "has_column c df' = has_column c df" for c
    using assms(1) by (simp add: has_column_def)
  then show ?thesis by (simp add: init_def assms(2))
qed

text \<open>
  Claim C9. The constructor sorts the records by date before anything else is computed.
  When the dates of a series are pairwise distinct, any series with the same columns
  and the same records in another order is sorted to the same frame, so the constructor
  gives the same calculator (or the same error) and the engine the same result, field by
  field.
\<close>

theorem score_permutation_invariant:
  assumes "mset (rows df') = mset (rows df)"
    and "columns df' = columns df"
    and "distinct (map date (rows df))"
  shows "sorted (map date (sorted_rows df))
    \<and> sorted_rows df' = sorted_rows df
    \<and> init df' p = init df p
    \<and> score df' p = score df p"
proof -
  have s: "sort_key date (rows df') = sort_key date (rows df)"
    by (rule sort_key_unique[OF assms(1) assms(3)])
  have sv: "sort_values df' = sort_values df"
    using assms(2) s by (cases df; cases df') (simp add: sort_values_def)
  have i: "init df' p = init df p"
    by (rule init_depends_on[OF assms(2) sv])
  show ?thesis
    using s i by (simp add: sorted_rows_def score_def)
qed

lemma reversed_facts:
  "mset (rows (reversed df)) = mset (rows df)" "columns (reversed df) = columns df"
  by (simp_all add: reversed_def)

theorem score_permutation_invariant_witness:
  "mset (rows (reversed uneven_series)) = mset (rows uneven_series)
   \<and> columns (reversed uneven_series) = columns uneven_series
   \<and> distinct (map date (rows uneven_series))
   \<and> rows (reversed uneven_series) \<noteq> rows uneven_series
   \<and> score (reversed uneven_series) 50 = score uneven_series 50
   \<and> (\<exists>r. score (reversed uneven_series) 50 = Inr r \<and> cfa_score r = 0.5537)"
proof -
  have d: "distinct (map date (rows uneven_series))"
    unfolding uneven_series_def by (rule distinct_dates_two_level_series)
  have e: "score (reversed uneven_series) 50 = score uneven_series 50"
    using score_permutation_invariant[OF reversed_facts d, of 50] by simp
  have "hd (rows (reversed uneven_series)) \<noteq> hd (rows uneven_series)"
    by (simp add: reversed_def uneven_series_def two_level_series_def hd_rev hd_append hd_map
        flat_row_def upt_rec[of 0 41] last_map)
  then have n: "rows (reversed uneven_series) \<noteq> rows uneven_series" by metis
  show ?thesis
    using d e n uneven_series_score(3) by (auto simp add: reversed_facts)
qed

section \<open>A supplied can-pay column\<close>







section \<open>Descriptive statistics\<close>
















end
